theory Spec2Isabelle
  imports Complex_Main "HOL-Library.Sublist"
begin

section \<open>Water consumption control (sistema.py): the domain model\<close>

text \<open>
  The embedding follows the classes of \<^verbatim>\<open>sistema.py\<close>: \<^verbatim>\<open>Consumo\<close>, \<^verbatim>\<open>Usuario\<close> and
  \<^verbatim>\<open>UsuarioComercial\<close>, the two \<^verbatim>\<open>Alerta\<close> variants and \<^verbatim>\<open>GerenciadorConsumo\<close>.

  \<^item> The numbers of the program are Python objects, \<^verbatim>\<open>int\<close> or \<^verbatim>\<open>float\<close>, among them
    infinities, signed zeros and NaN. They are the elements of a type \<open>'n\<close> about which
    nothing is assumed, and every operation of Python on them that the code calls is a
    field of the record \<open>arith\<close>: the rounding of a sum, a product or a quotient, the order
    in which \<^verbatim>\<open>sum\<close> adds, the comparisons with NaN and the rendering of \<^verbatim>\<open>250\<close> against
    \<^verbatim>\<open>250.0\<close> are whatever the fields do. A theorem that holds for every \<open>arith\<close> holds for
    the arithmetic of CPython.
  \<^item> The integers that the code counts with (\<^verbatim>\<open>len\<close>, the sum of ones) are exact, as in
    Python, and enter \<open>'n\<close> through \<open>py_int\<close>.
  \<^item> A Python \<^verbatim>\<open>str\<close> is modelled by its UTF-8 bytes, a \<open>string\<close>; the characters beyond
    ASCII of the source's literals are written byte by byte. \<^verbatim>\<open>str.lower\<close> is the parameter
    \<open>lower\<close> of the function that calls it.
  \<^item> A dictionary with string keys is a map from \<open>string\<close>, so that an absent key is visible.
  \<^item> Exceptions are values of \<open>py_error\<close>.
\<close>

subsection \<open>Built-ins of Python that the code calls\<close>

datatype py_error = ValueError | ZeroDivisionError | OverflowError

text \<open>
  \<open>py_int\<close> is an \<^verbatim>\<open>int\<close> as a number object, \<open>py_1_5\<close> the literal \<^verbatim>\<open>1.5\<close>, \<open>py_gt\<close> and \<open>py_lt\<close>
  the comparisons \<^verbatim>\<open>>\<close> and \<^verbatim>\<open><\<close>, \<open>py_mul\<close> and \<open>py_truediv\<close> the operators \<^verbatim>\<open>*\<close> and \<^verbatim>\<open>/\<close>,
  \<open>py_sum\<close> the built-in \<^verbatim>\<open>sum\<close> with its start value 0, and \<open>py_fmt\<close> the rendering of a number
  in an f-string. The three arithmetic operations can raise (\<^verbatim>\<open>ZeroDivisionError\<close>, or
  \<^verbatim>\<open>OverflowError\<close> when an \<^verbatim>\<open>int\<close> beyond the range of a double meets a \<^verbatim>\<open>float\<close>).
\<close>

record 'n arith =
  py_int :: "int \<Rightarrow> 'n"
  py_1_5 :: "'n"
  py_gt :: "'n \<Rightarrow> 'n \<Rightarrow> bool"
  py_lt :: "'n \<Rightarrow> 'n \<Rightarrow> bool"
  py_mul :: "'n \<Rightarrow> 'n \<Rightarrow> py_error + 'n"
  py_truediv :: "'n \<Rightarrow> 'n \<Rightarrow> py_error + 'n"
  py_sum :: "'n list \<Rightarrow> py_error + 'n"
  py_fmt :: "'n \<Rightarrow> string"

type_synonym 'n dict = "string \<rightharpoonup> 'n"

text \<open>
  \<^verbatim>\<open>max(xs)\<close> and \<^verbatim>\<open>min(xs)\<close>: ValueError on an empty list; otherwise the first item is the
  candidate and a later item replaces it only when it is \<^verbatim>\<open>>\<close> (\<^verbatim>\<open><\<close>) the candidate.
\<close>

fun max_loop :: "'n arith \<Rightarrow> 'n \<Rightarrow> 'n list \<Rightarrow> 'n" where
  "max_loop A m [] = m"
| "max_loop A m (x # xs) = max_loop A (if py_gt A x m then x else m) xs"

fun min_loop :: "'n arith \<Rightarrow> 'n \<Rightarrow> 'n list \<Rightarrow> 'n" where
  "min_loop A m [] = m"
| "min_loop A m (x # xs) = min_loop A (if py_lt A x m then x else m) xs"

fun py_max :: "'n arith \<Rightarrow> 'n list \<Rightarrow> py_error + 'n" where
  "py_max A [] = Inl ValueError"
| "py_max A (x # xs) = Inr (max_loop A x xs)"

fun py_min :: "'n arith \<Rightarrow> 'n list \<Rightarrow> py_error + 'n" where
  "py_min A [] = Inl ValueError"
| "py_min A (x # xs) = Inr (min_loop A x xs)"

text \<open>
  A generator expression whose items can raise, consumed to its end: the items in order,
  or the first exception.
\<close>

fun for_each :: "('a \<Rightarrow> py_error + 'b) \<Rightarrow> 'a list \<Rightarrow> py_error + 'b list" where
  "for_each f [] = Inr []"
| "for_each f (x # xs) =
     (case f x of
        Inl e \<Rightarrow> Inl e
      | Inr y \<Rightarrow> (case for_each f xs of Inl e \<Rightarrow> Inl e | Inr ys \<Rightarrow> Inr (y # ys)))"

text \<open>Truth value of an optional string, as in \<^verbatim>\<open>if msg:\<close>: None and the empty string are false.\<close>

fun truthy :: "string option \<Rightarrow> bool" where
  "truthy None = False"
| "truthy (Some s) = (s \<noteq> [])"

subsection \<open>Consumo\<close>

text \<open>
  A record of consumption: the amount in litres and the instant of the measurement. The
  instant is an abstract number; the constructor's default, the clock's current time when
  no instant is given, is not modelled.
\<close>

type_synonym datetime = nat

record 'n consumo =
  valor :: 'n
  data :: datetime

subsection \<open>Usuario and UsuarioComercial\<close>

text \<open>
  One record for the class hierarchy Pessoa, Usuario, UsuarioComercial: \<open>cnpj\<close> is \<open>None\<close> for
  an object of class Usuario and \<open>Some id\<close> for one of class UsuarioComercial.
\<close>

record 'n usuario =
  nome :: string
  tipo :: string
  consumos :: "'n consumo list"
  cnpj :: "string option"

definition Usuario_init :: "string \<Rightarrow> string \<Rightarrow> 'n usuario" where
  "Usuario_init n t = \<lparr>nome = n, tipo = t, consumos = [], cnpj = None\<rparr>"

definition Usuario :: "string \<Rightarrow> 'n usuario" where
  "Usuario n = Usuario_init n ''Residencial''"

definition UsuarioComercial :: "string \<Rightarrow> string \<Rightarrow> 'n usuario" where
  "UsuarioComercial n c = (Usuario_init n ''Comercial'')\<lparr>cnpj := Some c\<rparr>"

definition adicionar_consumo :: "'n usuario \<Rightarrow> 'n consumo \<Rightarrow> 'n usuario" where
  "adicionar_consumo u c = u\<lparr>consumos := consumos u @ [c]\<rparr>"

text \<open>
  \<^verbatim>\<open>exibir_info\<close>, dispatched on the class. The \<open>a\<close> with acute accent of the first literal is
  the two bytes C3 A1.
\<close>

definition exibir_info :: "'n usuario \<Rightarrow> string" where
  "exibir_info u =
     (case cnpj u of
        None \<Rightarrow> ''Usu'' @ [CHR 0xC3, CHR 0xA1] @ ''rio: '' @ nome u @ '' | Tipo: '' @ tipo u
      | Some c \<Rightarrow> ''Empresa: '' @ nome u @ '' | CNPJ: '' @ c @ '' | Tipo: '' @ tipo u)"

definition calcular_total :: "'n arith \<Rightarrow> 'n usuario \<Rightarrow> py_error + 'n" where
  "calcular_total A u = py_sum A (map valor (consumos u))"

text \<open>
  \<^verbatim>\<open>obter_estatisticas\<close>. The dictionary display evaluates its values in order: the sum, the
  sum again and its quotient by the length, the length, the maximum, the minimum. The second
  call of \<^verbatim>\<open>sum\<close> on the same list gives what the first gave.
\<close>

definition obter_estatisticas :: "'n arith \<Rightarrow> 'n usuario \<Rightarrow> py_error + 'n dict" where
  "obter_estatisticas A u =
     (if length (consumos u) = 0 then
        Inr [''total'' \<mapsto> py_int A 0, ''media'' \<mapsto> py_int A 0,
             ''quantidade_registros'' \<mapsto> py_int A 0,
             ''maior_consumo'' \<mapsto> py_int A 0, ''menor_consumo'' \<mapsto> py_int A 0]
      else
        let valores = map valor (consumos u) in
        case py_sum A valores of
          Inl e \<Rightarrow> Inl e
        | Inr soma \<Rightarrow>
           (case py_truediv A soma (py_int A (int (length valores))) of
              Inl e \<Rightarrow> Inl e
            | Inr media \<Rightarrow>
               (case py_max A valores of
                  Inl e \<Rightarrow> Inl e
                | Inr maior \<Rightarrow>
                   (case py_min A valores of
                      Inl e \<Rightarrow> Inl e
                    | Inr menor \<Rightarrow>
                        Inr [''total'' \<mapsto> soma, ''media'' \<mapsto> media,
                             ''quantidade_registros'' \<mapsto> py_int A (int (length valores)),
                             ''maior_consumo'' \<mapsto> maior, ''menor_consumo'' \<mapsto> menor]))))"

text \<open>
  The methods of a user as operations on its state: \<^verbatim>\<open>adicionar_consumo\<close> is the only one that
  assigns to or mutates an attribute; \<^verbatim>\<open>exibir_info\<close>, \<^verbatim>\<open>calcular_total\<close> and
  \<^verbatim>\<open>obter_estatisticas\<close> only read, so the state after them is the state before.
\<close>

datatype 'n usuario_op =
  AdicionarConsumo "'n consumo" | ExibirInfo | CalcularTotal | ObterEstatisticas

fun executar_op :: "'n usuario \<Rightarrow> 'n usuario_op \<Rightarrow> 'n usuario" where
  "executar_op u (AdicionarConsumo c) = adicionar_consumo u c"
| "executar_op u ExibirInfo = u"
| "executar_op u CalcularTotal = u"
| "executar_op u ObterEstatisticas = u"

subsection \<open>Alerta, AlertaSimples, AlertaCritico\<close>

datatype 'n alerta = AlertaSimples 'n | AlertaCritico 'n

text \<open>
  The literals of the two messages. The first starts with the warning sign U+26A0 U+FE0F
  (bytes E2 9A A0 EF B8 8F) and two spaces, the second with the siren U+1F6A8 (bytes
  F0 9F 9A A8); the capital I with acute accent is C3 8D.
\<close>

definition alto_prefix :: string where
  "alto_prefix = [CHR 0xE2, CHR 0x9A, CHR 0xA0, CHR 0xEF, CHR 0xB8, CHR 0x8F] @ ''  CONSUMO ALTO: ''"

definition critico_prefix :: string where
  "critico_prefix =
     [CHR 0xF0, CHR 0x9F, CHR 0x9A, CHR 0xA8] @ '' CONSUMO CR'' @ [CHR 0xC3, CHR 0x8D] @ ''TICO: ''"

text \<open>
  \<^verbatim>\<open>verificar\<close>. The critical variant first computes \<^verbatim>\<open>self._limite * 1.5\<close>, the product as
  Python rounds it, and compares the total with that number.
\<close>

fun verificar :: "'n arith \<Rightarrow> 'n alerta \<Rightarrow> 'n \<Rightarrow> py_error + string option" where
  "verificar A (AlertaSimples limite) consumo =
     (if py_gt A consumo limite
      then Inr (Some (alto_prefix @ py_fmt A consumo @ ''L (Limite: '' @ py_fmt A limite @ ''L)''))
      else Inr None)"
| "verificar A (AlertaCritico limite) consumo =
     (case py_mul A limite (py_1_5 A) of
        Inl e \<Rightarrow> Inl e
      | Inr produto \<Rightarrow>
         (if py_gt A consumo produto
          then Inr (Some (critico_prefix @ py_fmt A consumo @ ''L (Limite: '' @ py_fmt A limite @ ''L)''))
          else Inr None))"

subsection \<open>GerenciadorConsumo\<close>

record 'n gerenciador =
  usuarios :: "'n usuario list"
  alertas :: "'n alerta list"

definition GerenciadorConsumo :: "'n arith \<Rightarrow> 'n gerenciador" where
  "GerenciadorConsumo A =
     \<lparr>usuarios = [], alertas = [AlertaSimples (py_int A 200), AlertaCritico (py_int A 200)]\<rparr>"

definition adicionar_usuario :: "'n gerenciador \<Rightarrow> 'n usuario \<Rightarrow> 'n gerenciador" where
  "adicionar_usuario g u = g\<lparr>usuarios := usuarios g @ [u]\<rparr>"

text \<open>The loop of \<^verbatim>\<open>buscar_usuario\<close>: the first user whose lowered name is the lowered query.\<close>

fun buscar_loop :: "(string \<Rightarrow> string) \<Rightarrow> 'n usuario list \<Rightarrow> string \<Rightarrow> 'n usuario option" where
  "buscar_loop lower [] n = None"
| "buscar_loop lower (u # us) n =
     (if lower (nome u) = lower n then Some u else buscar_loop lower us n)"

definition buscar_usuario ::
    "(string \<Rightarrow> string) \<Rightarrow> 'n gerenciador \<Rightarrow> string \<Rightarrow> 'n usuario option" where
  "buscar_usuario lower g n = buscar_loop lower (usuarios g) n"

definition listar_usuarios :: "'n gerenciador \<Rightarrow> 'n usuario list" where
  "listar_usuarios g = usuarios g"

text \<open>
  The loop of \<^verbatim>\<open>verificar_alertas\<close>: \<open>ativos\<close> is the list \<^verbatim>\<open>alertas_ativos\<close> built so far; a
  message is appended when it is truthy. The local \<^verbatim>\<open>total\<close> of the source is \<open>tot\<close> here.
  An exception of \<^verbatim>\<open>calcular_total\<close> or of a policy ends the call.
\<close>

fun alertas_loop ::
    "'n arith \<Rightarrow> 'n \<Rightarrow> 'n alerta list \<Rightarrow> string list \<Rightarrow> py_error + string list" where
  "alertas_loop A tot [] ativos = Inr ativos"
| "alertas_loop A tot (a # as) ativos =
     (case verificar A a tot of
        Inl e \<Rightarrow> Inl e
      | Inr msg \<Rightarrow> alertas_loop A tot as (if truthy msg then ativos @ [the msg] else ativos))"

definition verificar_alertas ::
    "'n arith \<Rightarrow> 'n gerenciador \<Rightarrow> 'n usuario \<Rightarrow> py_error + string list" where
  "verificar_alertas A g u =
     (case calcular_total A u of
        Inl e \<Rightarrow> Inl e
      | Inr tot \<Rightarrow> alertas_loop A tot (alertas g) [])"

text \<open>
  \<^verbatim>\<open>gerar_relatorio_geral\<close>. With users, the totals of the users are summed, then the
  dictionary display evaluates the length, the quotient and the count of the users with an
  alert, a sum of the integer 1 over those users.
\<close>

definition gerar_relatorio_geral :: "'n arith \<Rightarrow> 'n gerenciador \<Rightarrow> py_error + 'n dict" where
  "gerar_relatorio_geral A g =
     (if length (usuarios g) = 0 then
        Inr [''total_usuarios'' \<mapsto> py_int A 0, ''consumo_total_sistema'' \<mapsto> py_int A 0,
             ''media_por_usuario'' \<mapsto> py_int A 0]
      else
        case for_each (calcular_total A) (usuarios g) of
          Inl e \<Rightarrow> Inl e
        | Inr totais \<Rightarrow>
           (case py_sum A totais of
              Inl e \<Rightarrow> Inl e
            | Inr consumo_total \<Rightarrow>
               (case py_truediv A consumo_total (py_int A (int (length (usuarios g)))) of
                  Inl e \<Rightarrow> Inl e
                | Inr media \<Rightarrow>
                   (case for_each (verificar_alertas A g) (usuarios g) of
                      Inl e \<Rightarrow> Inl e
                    | Inr listas \<Rightarrow>
                        Inr [''total_usuarios'' \<mapsto> py_int A (int (length (usuarios g))),
                             ''consumo_total_sistema'' \<mapsto> consumo_total,
                             ''media_por_usuario'' \<mapsto> media,
                             ''usuarios_com_alerta'' \<mapsto>
                                py_int A (foldl (+) 0
                                  (map (\<lambda>l. 1) (filter (\<lambda>l. length l > 0) listas)))]))))"

subsection \<open>A sample arithmetic, to run the model on concrete inputs\<close>

text \<open>
  The sample numbers are the integers, floats of a real value and NaN. Sums, products and
  quotients are exact, so the sample computes what CPython computes wherever every number
  met is NaN or a whole number of moderate size; the runs below stay there. \<open>sample_le\<close> is
  the comparison \<^verbatim>\<open><=\<close>, which the code never calls. \<open>sample_fmt\<close> renders an integer in
  decimal, a float of non-negative whole value with \<^verbatim>\<open>.0\<close> after it and NaN as \<^verbatim>\<open>nan\<close>.
  \<open>ascii_lower\<close> lowers the letters A to Z. No theorem about the program depends on them.
\<close>

datatype sample_num = SInt int | SFloat real | SNaN

fun sample_real :: "sample_num \<Rightarrow> real option" where
  "sample_real (SInt n) = Some (of_int n)"
| "sample_real (SFloat x) = Some x"
| "sample_real SNaN = None"

definition sample_gt :: "sample_num \<Rightarrow> sample_num \<Rightarrow> bool" where
  "sample_gt a b = (case (sample_real a, sample_real b) of (Some x, Some y) \<Rightarrow> x > y | _ \<Rightarrow> False)"

definition sample_lt :: "sample_num \<Rightarrow> sample_num \<Rightarrow> bool" where
  "sample_lt a b = (case (sample_real a, sample_real b) of (Some x, Some y) \<Rightarrow> x < y | _ \<Rightarrow> False)"

definition sample_le :: "sample_num \<Rightarrow> sample_num \<Rightarrow> bool" where
  "sample_le a b = (case (sample_real a, sample_real b) of (Some x, Some y) \<Rightarrow> x \<le> y | _ \<Rightarrow> False)"

definition sample_add :: "sample_num \<Rightarrow> sample_num \<Rightarrow> sample_num" where
  "sample_add a b =
     (case (a, b) of
        (SInt m, SInt n) \<Rightarrow> SInt (m + n)
      | _ \<Rightarrow> (case (sample_real a, sample_real b) of
                (Some x, Some y) \<Rightarrow> SFloat (x + y) | _ \<Rightarrow> SNaN))"

definition sample_mul :: "sample_num \<Rightarrow> sample_num \<Rightarrow> sample_num" where
  "sample_mul a b =
     (case (a, b) of
        (SInt m, SInt n) \<Rightarrow> SInt (m * n)
      | _ \<Rightarrow> (case (sample_real a, sample_real b) of
                (Some x, Some y) \<Rightarrow> SFloat (x * y) | _ \<Rightarrow> SNaN))"

definition sample_truediv :: "sample_num \<Rightarrow> sample_num \<Rightarrow> py_error + sample_num" where
  "sample_truediv a b =
     (case sample_real b of
        None \<Rightarrow> Inr SNaN
      | Some y \<Rightarrow>
         (if y = 0 then Inl ZeroDivisionError
          else (case sample_real a of None \<Rightarrow> Inr SNaN | Some x \<Rightarrow> Inr (SFloat (x / y)))))"

fun decimal :: "nat \<Rightarrow> string" where
  "decimal n =
     (if n < 10 then [''0123456789'' ! n] else decimal (n div 10) @ [''0123456789'' ! (n mod 10)])"

fun sample_fmt :: "sample_num \<Rightarrow> string" where
  "sample_fmt (SInt n) = (if n < 0 then ''-'' @ decimal (nat (- n)) else decimal (nat n))"
| "sample_fmt (SFloat x) = decimal (nat \<lfloor>x\<rfloor>) @ ''.0''"
| "sample_fmt SNaN = ''nan''"

definition sample :: "sample_num arith" where
  "sample =
     \<lparr>py_int = SInt, py_1_5 = SFloat 1.5, py_gt = sample_gt, py_lt = sample_lt,
      py_mul = (\<lambda>a b. Inr (sample_mul a b)), py_truediv = sample_truediv,
      py_sum = (\<lambda>xs. Inr (foldl sample_add (SInt 0) xs)), py_fmt = sample_fmt\<rparr>"

definition ascii_lower :: "string \<Rightarrow> string" where
  "ascii_lower s =
     map (\<lambda>c. case map_of (zip ''ABCDEFGHIJKLMNOPQRSTUVWXYZ'' ''abcdefghijklmnopqrstuvwxyz'') c of
                 None \<Rightarrow> c | Some d \<Rightarrow> d) s"

subsection \<open>The scenario of the specification\<close>

text \<open>
  The user Ana with records of 150, then 100, then 100 litres, the company Acme, a user
  whose only record is NaN and one whose records are NaN and 1 litre, a manager that holds
  three users, two of them with the same name up to case, and a manager of two users.
\<close>

definition ana :: "sample_num usuario" where
  "ana = Usuario ''Ana''"

definition ana150 :: "sample_num usuario" where
  "ana150 = adicionar_consumo ana \<lparr>valor = SFloat 150, data = 0\<rparr>"

definition ana250 :: "sample_num usuario" where
  "ana250 = adicionar_consumo ana150 \<lparr>valor = SFloat 100, data = 1\<rparr>"

definition ana350 :: "sample_num usuario" where
  "ana350 = adicionar_consumo ana250 \<lparr>valor = SFloat 100, data = 2\<rparr>"

definition acme :: "sample_num usuario" where
  "acme = UsuarioComercial ''Acme'' ''12.345''"

definition nan_user :: "sample_num usuario" where
  "nan_user = adicionar_consumo (Usuario ''Nina'') \<lparr>valor = SNaN, data = 0\<rparr>"

definition nan_one_user :: "sample_num usuario" where
  "nan_one_user = adicionar_consumo nan_user \<lparr>valor = SFloat 1, data = 1\<rparr>"

definition tres_usuarios :: "sample_num gerenciador" where
  "tres_usuarios =
     adicionar_usuario (adicionar_usuario (adicionar_usuario (GerenciadorConsumo sample) acme) ana350)
       (UsuarioComercial ''ANA'' ''98.765'')"

definition dois_usuarios :: "sample_num gerenciador" where
  "dois_usuarios = adicionar_usuario (adicionar_usuario (GerenciadorConsumo sample) ana150) ana350"

section \<open>Properties\<close>

subsection \<open>The alert policies\<close>

lemma sublist_mid: "sublist b (a @ b @ c)"
  unfolding sublist_def by blast

lemma sublist_mid4: "sublist d (a @ b @ c @ d @ e)"
proof -
  have "a @ b @ c @ d @ e = (a @ b @ c) @ d @ e" by simp
  then show ?thesis unfolding sublist_def by blast
qed

lemma msg_contains: "sublist a (p @ a @ s @ b @ e) \<and> sublist b (p @ a @ s @ b @ e)"
  using sublist_mid sublist_mid4 by blast

lemma simples_fires:
  assumes "py_gt A t limite"
  shows "\<exists>m. verificar A (AlertaSimples limite) t = Inr (Some m) \<and>
           sublist (py_fmt A t) m \<and> sublist (py_fmt A limite) m"
proof (intro exI conjI)
  show "verificar A (AlertaSimples limite) t =
          Inr (Some (alto_prefix @ py_fmt A t @ ''L (Limite: '' @ py_fmt A limite @ ''L)''))"
    using assms by (simp only: verificar.simps if_True)
qed (rule msg_contains [THEN conjunct1], rule msg_contains [THEN conjunct2])

lemma critico_fires:
  assumes "py_mul A limite (py_1_5 A) = Inr p" and "py_gt A t p"
  shows "\<exists>m. verificar A (AlertaCritico limite) t = Inr (Some m) \<and>
           sublist (py_fmt A t) m \<and> sublist (py_fmt A limite) m"
proof (intro exI conjI)
  show "verificar A (AlertaCritico limite) t =
          Inr (Some (critico_prefix @ py_fmt A t @ ''L (Limite: '' @ py_fmt A limite @ ''L)''))"
    using assms by (simp only: verificar.simps sum.case if_True)
qed (rule msg_contains [THEN conjunct1], rule msg_contains [THEN conjunct2])

text \<open>
  C2. For every threshold and every total, the simple policy returns a message exactly when
  the total is greater than the threshold, and the critical policy exactly when the total
  is greater than the product of the threshold and 1.5, the product being the number that
  \<^verbatim>\<open>self._limite * 1.5\<close> evaluates to. The message contains the rendering of the total and
  the rendering of the threshold; otherwise the result is None. Should the product raise,
  as it does for an \<^verbatim>\<open>int\<close> threshold beyond the doubles, the exception leaves the method.
\<close>

theorem verificar_message_iff:
  "(py_gt A t limite \<longleftrightarrow>
      (\<exists>m. verificar A (AlertaSimples limite) t = Inr (Some m) \<and>
           sublist (py_fmt A t) m \<and> sublist (py_fmt A limite) m)) \<and>
   (\<not> py_gt A t limite \<longleftrightarrow> verificar A (AlertaSimples limite) t = Inr None) \<and>
   (\<forall>p. py_mul A limite (py_1_5 A) = Inr p \<longrightarrow>
      (py_gt A t p \<longleftrightarrow>
         (\<exists>m. verificar A (AlertaCritico limite) t = Inr (Some m) \<and>
              sublist (py_fmt A t) m \<and> sublist (py_fmt A limite) m)) \<and>
      (\<not> py_gt A t p \<longleftrightarrow> verificar A (AlertaCritico limite) t = Inr None)) \<and>
   (\<forall>e. py_mul A limite (py_1_5 A) = Inl e \<longrightarrow> verificar A (AlertaCritico limite) t = Inl e)"
proof (intro conjI allI impI)
  have sn: "\<not> py_gt A t limite \<Longrightarrow> verificar A (AlertaSimples limite) t = Inr None"
    by simp
  show "py_gt A t limite \<longleftrightarrow>
      (\<exists>m. verificar A (AlertaSimples limite) t = Inr (Some m) \<and>
           sublist (py_fmt A t) m \<and> sublist (py_fmt A limite) m)"
    using simples_fires [of A t limite] sn by (metis option.distinct(1) sum.inject(2))
  show "\<not> py_gt A t limite \<longleftrightarrow> verificar A (AlertaSimples limite) t = Inr None"
    using simples_fires [of A t limite] sn by (metis option.distinct(1) sum.inject(2))
next
  fix p assume p: "py_mul A limite (py_1_5 A) = Inr p"
  have cn: "\<not> py_gt A t p \<Longrightarrow> verificar A (AlertaCritico limite) t = Inr None"
    using p by simp
  show "py_gt A t p \<longleftrightarrow>
         (\<exists>m. verificar A (AlertaCritico limite) t = Inr (Some m) \<and>
              sublist (py_fmt A t) m \<and> sublist (py_fmt A limite) m)"
    using critico_fires [OF p, of t] cn by (metis option.distinct(1) sum.inject(2))
  show "\<not> py_gt A t p \<longleftrightarrow> verificar A (AlertaCritico limite) t = Inr None"
    using critico_fires [OF p, of t] cn by (metis option.distinct(1) sum.inject(2))
next
  fix e assume "py_mul A limite (py_1_5 A) = Inl e"
  then show "verificar A (AlertaCritico limite) t = Inl e" by simp
qed

lemma sample_product: "py_mul sample (SInt 200) (py_1_5 sample) = Inr (SFloat 300)"
  by (simp add: sample_def sample_mul_def)

text \<open>
  At threshold 200 the simple policy gives, for the float 250, the message that CPython
  prints, and the critical policy gives none; for the float 350 the critical policy gives
  its message.
\<close>

theorem verificar_message_iff_witness:
  "verificar sample (AlertaSimples (SInt 200)) (SFloat 250) =
     Inr (Some (alto_prefix @ ''250.0L (Limite: 200L)'')) \<and>
   verificar sample (AlertaCritico (SInt 200)) (SFloat 250) = Inr None \<and>
   (\<exists>m. verificar sample (AlertaCritico (SInt 200)) (SFloat 350) = Inr (Some m) \<and>
        sublist ''350.0'' m \<and> sublist ''200'' m)"
proof -
  note a = verificar_message_iff [of sample "SFloat 250" "SInt 200"]
  note b = verificar_message_iff [of sample "SFloat 350" "SInt 200"]
  have g: "\<not> py_gt sample (SFloat 250) (SFloat 300)" "py_gt sample (SFloat 350) (SFloat 300)"
    by (simp_all add: sample_def sample_gt_def)
  have f: "py_fmt sample (SFloat 350) = ''350.0''" "py_fmt sample (SInt 200) = ''200''"
    by (simp_all add: sample_def)
  from a sample_product g(1)
  have 1: "verificar sample (AlertaCritico (SInt 200)) (SFloat 250) = Inr None"
    by blast
  from b sample_product g(2)
  have "\<exists>m. verificar sample (AlertaCritico (SInt 200)) (SFloat 350) = Inr (Some m) \<and>
        sublist (py_fmt sample (SFloat 350)) m \<and> sublist (py_fmt sample (SInt 200)) m"
    by blast
  then have 2: "\<exists>m. verificar sample (AlertaCritico (SInt 200)) (SFloat 350) = Inr (Some m) \<and>
        sublist ''350.0'' m \<and> sublist ''200'' m"
    unfolding f .
  have 3: "verificar sample (AlertaSimples (SInt 200)) (SFloat 250) =
     Inr (Some (alto_prefix @ ''250.0L (Limite: 200L)''))"
    by (simp add: sample_def sample_gt_def)
  from 1 2 3 show ?thesis by blast
qed

subsection \<open>Alerts of a user\<close>

lemma verificar_not_empty: "verificar A a t \<noteq> Inr (Some [])"
  by (cases a) (simp_all add: alto_prefix_def critico_prefix_def split: sum.splits)

lemma truthy_result: "verificar A a t = Inr r \<Longrightarrow> truthy r \<longleftrightarrow> r \<noteq> None"
  using verificar_not_empty [of A a t] by (cases r) auto

lemma alertas_loop_results:
  "map (\<lambda>a. verificar A a t) as = map Inr rs \<Longrightarrow>
   alertas_loop A t as ativos = Inr (ativos @ map the (filter (\<lambda>r. r \<noteq> None) rs))"
proof (induction as arbitrary: rs ativos)
  case Nil
  then show ?case by simp
next
  case (Cons a as)
  from Cons.prems obtain r rs' where rs: "rs = r # rs'" and r: "verificar A a t = Inr r"
    and rest: "map (\<lambda>a. verificar A a t) as = map Inr rs'"
    by (cases rs) auto
  show ?case
    using Cons.IH [OF rest] truthy_result [OF r] by (simp add: rs r)
qed

lemma verificar_alertas_results:
  assumes "calcular_total A u = Inr t"
    and "map (\<lambda>a. verificar A a t) (alertas g) = map Inr rs"
  shows "verificar_alertas A g u = Inr (map the (filter (\<lambda>r. r \<noteq> None) rs))"
  using alertas_loop_results [OF assms(2), of "[]"] assms(1)
  by (simp add: verificar_alertas_def)

lemma verificar_alertas_two:
  assumes "alertas g = [AlertaSimples l, AlertaCritico l]"
    and "calcular_total A u = Inr t"
    and "py_mul A l (py_1_5 A) = Inr p"
  shows "verificar_alertas A g u =
     Inr ((if py_gt A t l
           then [alto_prefix @ py_fmt A t @ ''L (Limite: '' @ py_fmt A l @ ''L)''] else []) @
          (if py_gt A t p
           then [critico_prefix @ py_fmt A t @ ''L (Limite: '' @ py_fmt A l @ ''L)''] else []))"
  using assms by (simp add: verificar_alertas_def)

lemma alertas_default: "alertas (GerenciadorConsumo A) = [AlertaSimples (py_int A 200), AlertaCritico (py_int A 200)]"
  by (simp add: GerenciadorConsumo_def)

text \<open>
  C1, as the code has it. Under the default policies, for a user whose records sum to \<open>t\<close>,
  with \<open>p\<close> the number that \<^verbatim>\<open>200 * 1.5\<close> evaluates to (the float 300 in CPython), which is
  greater than 200 by the transitive \<^verbatim>\<open>>\<close>: \<^verbatim>\<open>verificar_alertas\<close> returns the empty list exactly when
  \<^verbatim>\<open>t > 200\<close> is false, which is so for \<open>t \<le> 200\<close> and for a NaN; the list of the one simple
  message when \<^verbatim>\<open>t > 200\<close> holds and \<^verbatim>\<open>t > p\<close> does not; the simple message followed by the
  critical one when \<^verbatim>\<open>t > p\<close>.
\<close>

theorem verificar_alertas_tiers:
  assumes "alertas g = alertas (GerenciadorConsumo A)"
    and "calcular_total A u = Inr t"
    and "py_mul A (py_int A 200) (py_1_5 A) = Inr p"
    and "py_gt A p (py_int A 200)"
    and "\<forall>x y z. py_gt A x y \<longrightarrow> py_gt A y z \<longrightarrow> py_gt A x z"
  shows "\<exists>r. verificar_alertas A g u = Inr r \<and>
    (r = [] \<longleftrightarrow> \<not> py_gt A t (py_int A 200)) \<and>
    (py_gt A t (py_int A 200) \<and> \<not> py_gt A t p \<longrightarrow>
       (\<exists>s. verificar A (AlertaSimples (py_int A 200)) t = Inr (Some s) \<and>
            verificar A (AlertaCritico (py_int A 200)) t = Inr None \<and> r = [s])) \<and>
    (py_gt A t p \<longrightarrow>
       (\<exists>s c. verificar A (AlertaSimples (py_int A 200)) t = Inr (Some s) \<and>
              verificar A (AlertaCritico (py_int A 200)) t = Inr (Some c) \<and> r = [s, c]))"
proof -
  have d: "alertas g = [AlertaSimples (py_int A 200), AlertaCritico (py_int A 200)]"
    using assms(1) by (simp add: alertas_default)
  have above: "\<forall>x. py_gt A x p \<longrightarrow> py_gt A x (py_int A 200)"
    using assms(4,5) by blast
  show ?thesis
    using above assms(3) by (auto simp add: verificar_alertas_two [OF d assms(2,3)])
qed

lemma sample_300_above_200: "py_gt sample (SFloat 300) (py_int sample 200)"
  by (simp add: sample_def sample_gt_def)

lemma sample_gt_irrefl: "\<forall>x. \<not> py_gt sample x x"
  by (simp add: sample_def sample_gt_def split: option.splits)

lemma sample_gt_trans: "\<forall>x y z. py_gt sample x y \<longrightarrow> py_gt sample y z \<longrightarrow> py_gt sample x z"
  by (auto simp add: sample_def sample_gt_def split: option.splits)

lemma sample_product_int: "py_mul sample (py_int sample 200) (py_1_5 sample) = Inr (SFloat 300)"
  by (simp add: sample_def sample_mul_def)

lemma totals_ana:
  "calcular_total sample ana = Inr (SInt 0)" "calcular_total sample ana150 = Inr (SFloat 150)"
  "calcular_total sample ana250 = Inr (SFloat 250)" "calcular_total sample ana350 = Inr (SFloat 350)"
  by (simp_all add: calcular_total_def sample_def sample_add_def ana_def ana150_def ana250_def
      ana350_def Usuario_def Usuario_init_def adicionar_consumo_def)

lemma total_nan: "calcular_total sample nan_user = Inr SNaN"
  by (simp add: calcular_total_def sample_def sample_add_def nan_user_def
      Usuario_def Usuario_init_def adicionar_consumo_def)

lemma sample_gt_facts:
  "\<not> py_gt sample (SFloat 150) (py_int sample 200)"
  "py_gt sample (SFloat 250) (py_int sample 200)" "\<not> py_gt sample (SFloat 250) (SFloat 300)"
  "py_gt sample (SFloat 350) (py_int sample 200)" "py_gt sample (SFloat 350) (SFloat 300)"
  "\<not> py_gt sample SNaN (py_int sample 200)" "\<not> py_gt sample SNaN (SFloat 300)"
  by (simp_all add: sample_def sample_gt_def)

lemma sample_msgs:
  "verificar sample (AlertaSimples (py_int sample 200)) (SFloat 250) =
     Inr (Some (alto_prefix @ ''250.0L (Limite: 200L)''))"
  "verificar sample (AlertaSimples (py_int sample 200)) (SFloat 350) =
     Inr (Some (alto_prefix @ ''350.0L (Limite: 200L)''))"
  "verificar sample (AlertaCritico (py_int sample 200)) (SFloat 350) =
     Inr (Some (critico_prefix @ ''350.0L (Limite: 200L)''))"
  by (simp_all add: sample_def sample_gt_def sample_mul_def)

text \<open>Ana at 150, 250 and 350 litres: no alert, the simple one, both, as CPython prints them.\<close>

theorem verificar_alertas_tiers_witness:
  "verificar_alertas sample (GerenciadorConsumo sample) ana150 = Inr [] \<and>
   verificar_alertas sample (GerenciadorConsumo sample) ana250 =
     Inr [alto_prefix @ ''250.0L (Limite: 200L)''] \<and>
   verificar_alertas sample (GerenciadorConsumo sample) ana350 =
     Inr [alto_prefix @ ''350.0L (Limite: 200L)'', critico_prefix @ ''350.0L (Limite: 200L)'']"
proof -
  note t = verificar_alertas_tiers [OF refl _ sample_product_int sample_300_above_200 sample_gt_trans]
  from t [OF totals_ana(2)] sample_gt_facts(1)
  have 1: "verificar_alertas sample (GerenciadorConsumo sample) ana150 = Inr []"
    by auto
  from t [OF totals_ana(3)] sample_gt_facts(2,3) sample_msgs(1)
  have 2: "verificar_alertas sample (GerenciadorConsumo sample) ana250 =
     Inr [alto_prefix @ ''250.0L (Limite: 200L)'']"
    by auto
  from t [OF totals_ana(4)] sample_gt_facts(5) sample_msgs(2,3)
  have 3: "verificar_alertas sample (GerenciadorConsumo sample) ana350 =
     Inr [alto_prefix @ ''350.0L (Limite: 200L)'', critico_prefix @ ''350.0L (Limite: 200L)'']"
    by auto
  from 1 2 3 show ?thesis by blast
qed

text \<open>
  A user whose one record is NaN, which the shell accepts since \<^verbatim>\<open>nan < 0\<close> is false: the
  total is NaN, the list of alerts is empty, and \<^verbatim>\<open>total <= 200\<close> is false.
\<close>

theorem verificar_alertas_tiers_counterexample:
  "calcular_total sample nan_user = Inr SNaN \<and>
   verificar_alertas sample (GerenciadorConsumo sample) nan_user = Inr [] \<and>
   \<not> sample_le SNaN (SInt 200)"
  by (simp add: total_nan verificar_alertas_def alertas_default sample_product_int
      sample_gt_facts sample_le_def)

text \<open>
  C7. \<^verbatim>\<open>verificar_alertas\<close> evaluates every configured policy on the one total of the user,
  in the order of the configuration, which is the simple policy before the critical one,
  and returns the results that are not None, in that order; when no policy fires the result
  is the empty list. An exception of the total leaves the method.
\<close>

theorem verificar_alertas_in_order:
  "(\<forall>t rs. calcular_total A u = Inr t \<longrightarrow>
       map (\<lambda>a. verificar A a t) (alertas g) = map Inr rs \<longrightarrow>
       verificar_alertas A g u = Inr (map the (filter (\<lambda>r. r \<noteq> None) rs))) \<and>
   (\<forall>e. calcular_total A u = Inl e \<longrightarrow> verificar_alertas A g u = Inl e) \<and>
   alertas (GerenciadorConsumo A) = [AlertaSimples (py_int A 200), AlertaCritico (py_int A 200)] \<and>
   alertas (adicionar_usuario g v) = alertas g \<and>
   (\<forall>t. calcular_total A u = Inr t \<longrightarrow>
       (\<forall>a \<in> set (alertas g). verificar A a t = Inr None) \<longrightarrow>
       verificar_alertas A g u = Inr [])"
proof (intro conjI allI impI)
  fix t rs
  assume "calcular_total A u = Inr t" "map (\<lambda>a. verificar A a t) (alertas g) = map Inr rs"
  then show "verificar_alertas A g u = Inr (map the (filter (\<lambda>r. r \<noteq> None) rs))"
    by (rule verificar_alertas_results)
next
  fix e assume "calcular_total A u = Inl e"
  then show "verificar_alertas A g u = Inl e"
    by (simp add: verificar_alertas_def)
next
  show "alertas (GerenciadorConsumo A) = [AlertaSimples (py_int A 200), AlertaCritico (py_int A 200)]"
    by (rule alertas_default)
  show "alertas (adicionar_usuario g v) = alertas g"
    by (simp add: adicionar_usuario_def)
next
  fix t
  assume t: "calcular_total A u = Inr t"
    and n: "\<forall>a \<in> set (alertas g). verificar A a t = Inr None"
  from n have "map (\<lambda>a. verificar A a t) (alertas g) = map Inr (map (\<lambda>a. None) (alertas g))"
    by simp
  from verificar_alertas_results [OF t this]
  show "verificar_alertas A g u = Inr []"
    by (simp add: filter_empty_conv)
qed

text \<open>
  A manager whose policies are configured in the other order answers in the other order, and
  the default manager gives Ana at 150 litres no alert.
\<close>

theorem verificar_alertas_in_order_witness:
  "verificar_alertas sample
      \<lparr>usuarios = [], alertas = [AlertaCritico (SInt 200), AlertaSimples (SInt 200)]\<rparr> ana350 =
     Inr [critico_prefix @ ''350.0L (Limite: 200L)'', alto_prefix @ ''350.0L (Limite: 200L)''] \<and>
   verificar_alertas sample (GerenciadorConsumo sample) ana150 = Inr []"
proof -
  let ?g = "\<lparr>usuarios = [], alertas = [AlertaCritico (SInt 200), AlertaSimples (SInt 200)]\<rparr>
    :: sample_num gerenciador"
  have m: "map (\<lambda>a. verificar sample a (SFloat 350)) (alertas ?g) =
      map Inr [Some (critico_prefix @ ''350.0L (Limite: 200L)''),
               Some (alto_prefix @ ''350.0L (Limite: 200L)'')]"
    by (simp add: sample_def sample_gt_def sample_mul_def)
  have n: "\<forall>a \<in> set (alertas (GerenciadorConsumo sample)).
      verificar sample a (SFloat 150) = Inr None"
    by (simp add: alertas_default sample_def sample_gt_def sample_mul_def)
  from verificar_alertas_in_order [of sample ana350 ?g] totals_ana(4) m
  have 1: "verificar_alertas sample ?g ana350 =
      Inr (map the (filter (\<lambda>r. r \<noteq> None)
        [Some (critico_prefix @ ''350.0L (Limite: 200L)''),
         Some (alto_prefix @ ''350.0L (Limite: 200L)'')]))"
    by blast
  from verificar_alertas_in_order [of sample ana150 "GerenciadorConsumo sample"] totals_ana(2) n
  have 2: "verificar_alertas sample (GerenciadorConsumo sample) ana150 = Inr []"
    by blast
  from 1 2 show ?thesis by simp
qed

text \<open>
  C10. Under the default policies, with \<open>p\<close> the number that \<^verbatim>\<open>200 * 1.5\<close> evaluates to, which
  is greater than 200 by the transitive \<^verbatim>\<open>>\<close>, the list of alerts has at most two messages, and when it
  holds the message of the critical policy it also holds the message of the simple policy,
  which is a different message.
\<close>

theorem critico_never_alone:
  assumes "alertas g = alertas (GerenciadorConsumo A)"
    and "calcular_total A u = Inr t"
    and "py_mul A (py_int A 200) (py_1_5 A) = Inr p"
    and "py_gt A p (py_int A 200)"
    and "\<forall>x y z. py_gt A x y \<longrightarrow> py_gt A y z \<longrightarrow> py_gt A x z"
  shows "\<exists>r. verificar_alertas A g u = Inr r \<and> length r \<le> 2 \<and>
    (\<forall>c. verificar A (AlertaCritico (py_int A 200)) t = Inr (Some c) \<longrightarrow> c \<in> set r \<longrightarrow>
         (\<exists>s. verificar A (AlertaSimples (py_int A 200)) t = Inr (Some s) \<and>
              s \<in> set r \<and> s \<noteq> c)) \<and>
    ((\<exists>m \<in> set r. prefix critico_prefix m) \<longrightarrow> (\<exists>m \<in> set r. prefix alto_prefix m))"
proof -
  have d: "alertas g = [AlertaSimples (py_int A 200), AlertaCritico (py_int A 200)]"
    using assms(1) by (simp add: alertas_default)
  have above: "\<forall>x. py_gt A x p \<longrightarrow> py_gt A x (py_int A 200)"
    using assms(4,5) by blast
  show ?thesis
    using above assms(3)
    by (auto simp add: verificar_alertas_two [OF d assms(2,3)] alto_prefix_def critico_prefix_def)
qed

text \<open>Ana at 350 litres: two messages, the critical one second and the simple one first.\<close>

theorem critico_never_alone_witness:
  "\<exists>r. verificar_alertas sample (GerenciadorConsumo sample) ana350 = Inr r \<and> length r = 2 \<and>
     critico_prefix @ ''350.0L (Limite: 200L)'' \<in> set r \<and>
     (\<exists>s. verificar sample (AlertaSimples (SInt 200)) (SFloat 350) = Inr (Some s) \<and> s \<in> set r)"
proof -
  from critico_never_alone [OF refl totals_ana(4) sample_product_int sample_300_above_200 sample_gt_trans]
  obtain r where r: "verificar_alertas sample (GerenciadorConsumo sample) ana350 = Inr r"
    and len: "length r \<le> 2"
    by blast
  have e: "verificar_alertas sample (GerenciadorConsumo sample) ana350 =
     Inr [alto_prefix @ ''350.0L (Limite: 200L)'', critico_prefix @ ''350.0L (Limite: 200L)'']"
    using verificar_alertas_two [OF alertas_default totals_ana(4) sample_product_int]
      sample_gt_facts(4,5)
    by (simp add: sample_def)
  have i: "py_int sample 200 = SInt 200" by (simp add: sample_def)
  have s: "verificar sample (AlertaSimples (SInt 200)) (SFloat 350) =
      Inr (Some (alto_prefix @ ''350.0L (Limite: 200L)''))"
    using sample_msgs(2) unfolding i .
  from r e have rr: "r = [alto_prefix @ ''350.0L (Limite: 200L)'', critico_prefix @ ''350.0L (Limite: 200L)'']"
    by simp
  show ?thesis
    by (rule exI [of _ r]) (simp add: r rr s del: verificar.simps)
qed

subsection \<open>Statistics of a user\<close>

lemma max_loop_mem: "max_loop A m xs \<in> set (m # xs)"
  by (induction xs arbitrary: m) auto

lemma min_loop_mem: "min_loop A m xs \<in> set (m # xs)"
  by (induction xs arbitrary: m) auto

lemma loop_extremal:
  fixes gt :: "'n \<Rightarrow> 'n \<Rightarrow> bool"
  assumes irr: "\<forall>x. \<not> gt x x" and tr: "\<forall>x y z. gt x y \<longrightarrow> gt y z \<longrightarrow> gt x z"
    and step: "\<And>m x. pick m x = (if gt x m then x else m)"
    and inv: "\<forall>v \<in> S. \<not> gt v m"
  shows "\<forall>v \<in> S \<union> set xs. \<not> gt v (foldl pick m xs)"
  using inv
proof (induction xs arbitrary: m S)
  case Nil
  then show ?case by simp
next
  case (Cons x xs)
  have "\<forall>v \<in> insert x S. \<not> gt v (pick m x)"
  proof (cases "gt x m")
    case True
    then have "pick m x = x" by (simp add: step)
    moreover have "\<not> gt v x" if "v \<in> S" for v
      using that True Cons.prems tr by blast
    ultimately show ?thesis using irr by auto
  next
    case False
    then have "pick m x = m" by (simp add: step)
    then show ?thesis using False Cons.prems by auto
  qed
  from Cons.IH [OF this] show ?case by simp
qed

lemma max_loop_foldl: "max_loop A m xs = foldl (\<lambda>m x. if py_gt A x m then x else m) m xs"
  by (induction xs arbitrary: m) simp_all

lemma min_loop_foldl: "min_loop A m xs = foldl (\<lambda>m x. if py_lt A x m then x else m) m xs"
  by (induction xs arbitrary: m) simp_all

lemma py_max_maximal:
  assumes "xs \<noteq> []"
  shows "\<exists>m. py_max A xs = Inr m \<and> m \<in> set xs \<and>
    ((\<forall>x. \<not> py_gt A x x) \<longrightarrow> (\<forall>x y z. py_gt A x y \<longrightarrow> py_gt A y z \<longrightarrow> py_gt A x z) \<longrightarrow>
       (\<forall>v \<in> set xs. \<not> py_gt A v m))"
proof -
  from assms obtain y ys where xs: "xs = y # ys" by (cases xs) auto
  have "\<forall>v \<in> {y} \<union> set ys. \<not> py_gt A v (max_loop A y ys)"
    if "\<forall>x. \<not> py_gt A x x" "\<forall>x y z. py_gt A x y \<longrightarrow> py_gt A y z \<longrightarrow> py_gt A x z"
    unfolding max_loop_foldl
    by (rule loop_extremal [OF that]) (simp_all add: that(1))
  then show ?thesis
    using max_loop_mem [of A y ys] by (simp add: xs)
qed

lemma py_min_minimal:
  assumes "xs \<noteq> []"
  shows "\<exists>m. py_min A xs = Inr m \<and> m \<in> set xs \<and>
    ((\<forall>x. \<not> py_lt A x x) \<longrightarrow> (\<forall>x y z. py_lt A x y \<longrightarrow> py_lt A y z \<longrightarrow> py_lt A x z) \<longrightarrow>
       (\<forall>v \<in> set xs. \<not> py_lt A v m))"
proof -
  from assms obtain y ys where xs: "xs = y # ys" by (cases xs) auto
  have "\<forall>v \<in> {y} \<union> set ys. \<not> py_lt A v (min_loop A y ys)"
    if "\<forall>x. \<not> py_lt A x x" "\<forall>x y z. py_lt A x y \<longrightarrow> py_lt A y z \<longrightarrow> py_lt A x z"
    unfolding min_loop_foldl
    by (rule loop_extremal [OF that]) (simp_all add: that(1))
  then show ?thesis
    using min_loop_mem [of A y ys] by (simp add: xs)
qed

text \<open>
  C3, as the code has it. With no record, \<^verbatim>\<open>obter_estatisticas\<close> returns the dictionary whose
  five fields are 0. Otherwise, when the sum of the amounts evaluates to \<open>s\<close> and the quotient
  of \<open>s\<close> by the number of records to \<open>m\<close>, it returns \<open>s\<close> as total, the number of records as
  count, \<open>m\<close> as mean, and as maximum (minimum) one of the amounts, than which no amount is
  greater (less) by the comparison of Python, which is irreflexive and transitive: the
  greatest and the least amount when no amount is a NaN.
\<close>

theorem obter_estatisticas_correct:
  "(consumos u = [] \<longrightarrow>
      obter_estatisticas A u =
        Inr [''total'' \<mapsto> py_int A 0, ''media'' \<mapsto> py_int A 0,
             ''quantidade_registros'' \<mapsto> py_int A 0,
             ''maior_consumo'' \<mapsto> py_int A 0, ''menor_consumo'' \<mapsto> py_int A 0]) \<and>
   (\<forall>s m. consumos u \<noteq> [] \<longrightarrow>
      py_sum A (map valor (consumos u)) = Inr s \<longrightarrow>
      py_truediv A s (py_int A (int (length (consumos u)))) = Inr m \<longrightarrow>
      (\<exists>maior menor.
         obter_estatisticas A u =
           Inr [''total'' \<mapsto> s, ''media'' \<mapsto> m,
                ''quantidade_registros'' \<mapsto> py_int A (int (length (consumos u))),
                ''maior_consumo'' \<mapsto> maior, ''menor_consumo'' \<mapsto> menor] \<and>
         maior \<in> valor ` set (consumos u) \<and> menor \<in> valor ` set (consumos u) \<and>
         ((\<forall>x. \<not> py_gt A x x) \<longrightarrow>
          (\<forall>x y z. py_gt A x y \<longrightarrow> py_gt A y z \<longrightarrow> py_gt A x z) \<longrightarrow>
            (\<forall>v \<in> valor ` set (consumos u). \<not> py_gt A v maior)) \<and>
         ((\<forall>x. \<not> py_lt A x x) \<longrightarrow>
          (\<forall>x y z. py_lt A x y \<longrightarrow> py_lt A y z \<longrightarrow> py_lt A x z) \<longrightarrow>
            (\<forall>v \<in> valor ` set (consumos u). \<not> py_lt A v menor))))"
proof (intro conjI allI impI)
  assume "consumos u = []"
  then show "obter_estatisticas A u =
        Inr [''total'' \<mapsto> py_int A 0, ''media'' \<mapsto> py_int A 0,
             ''quantidade_registros'' \<mapsto> py_int A 0,
             ''maior_consumo'' \<mapsto> py_int A 0, ''menor_consumo'' \<mapsto> py_int A 0]"
    by (simp add: obter_estatisticas_def)
next
  fix s m
  assume ne: "consumos u \<noteq> []"
    and s: "py_sum A (map valor (consumos u)) = Inr s"
    and m: "py_truediv A s (py_int A (int (length (consumos u)))) = Inr m"
  define vs where "vs = map valor (consumos u)"
  have vne: "vs \<noteq> []" using ne by (simp add: vs_def)
  have st: "set vs = valor ` set (consumos u)" by (simp add: vs_def)
  from py_max_maximal [OF vne, of A] obtain maior where
    ma: "py_max A vs = Inr maior" "maior \<in> set vs"
      "(\<forall>x. \<not> py_gt A x x) \<longrightarrow> (\<forall>x y z. py_gt A x y \<longrightarrow> py_gt A y z \<longrightarrow> py_gt A x z) \<longrightarrow>
         (\<forall>v \<in> set vs. \<not> py_gt A v maior)"
    by blast
  from py_min_minimal [OF vne, of A] obtain menor where
    me: "py_min A vs = Inr menor" "menor \<in> set vs"
      "(\<forall>x. \<not> py_lt A x x) \<longrightarrow> (\<forall>x y z. py_lt A x y \<longrightarrow> py_lt A y z \<longrightarrow> py_lt A x z) \<longrightarrow>
         (\<forall>v \<in> set vs. \<not> py_lt A v menor)"
    by blast
  have "obter_estatisticas A u =
           Inr [''total'' \<mapsto> s, ''media'' \<mapsto> m,
                ''quantidade_registros'' \<mapsto> py_int A (int (length (consumos u))),
                ''maior_consumo'' \<mapsto> maior, ''menor_consumo'' \<mapsto> menor]"
    using ne s m ma(1) me(1)
    by (simp add: obter_estatisticas_def Let_def vs_def)
  with ma(2,3) me(2,3)
  show "\<exists>maior menor.
         obter_estatisticas A u =
           Inr [''total'' \<mapsto> s, ''media'' \<mapsto> m,
                ''quantidade_registros'' \<mapsto> py_int A (int (length (consumos u))),
                ''maior_consumo'' \<mapsto> maior, ''menor_consumo'' \<mapsto> menor] \<and>
         maior \<in> valor ` set (consumos u) \<and> menor \<in> valor ` set (consumos u) \<and>
         ((\<forall>x. \<not> py_gt A x x) \<longrightarrow>
          (\<forall>x y z. py_gt A x y \<longrightarrow> py_gt A y z \<longrightarrow> py_gt A x z) \<longrightarrow>
            (\<forall>v \<in> valor ` set (consumos u). \<not> py_gt A v maior)) \<and>
         ((\<forall>x. \<not> py_lt A x x) \<longrightarrow>
          (\<forall>x y z. py_lt A x y \<longrightarrow> py_lt A y z \<longrightarrow> py_lt A x z) \<longrightarrow>
            (\<forall>v \<in> valor ` set (consumos u). \<not> py_lt A v menor))"
    unfolding st by blast
qed

lemma stats_ana250:
  "obter_estatisticas sample ana250 =
     Inr [''total'' \<mapsto> SFloat 250, ''media'' \<mapsto> SFloat 125, ''quantidade_registros'' \<mapsto> SInt 2,
          ''maior_consumo'' \<mapsto> SFloat 150, ''menor_consumo'' \<mapsto> SFloat 100]"
  by (simp add: obter_estatisticas_def sample_def sample_add_def sample_truediv_def sample_gt_def
      sample_lt_def ana250_def ana150_def ana_def Usuario_def Usuario_init_def adicionar_consumo_def)

text \<open>
  Ana with no record, and Ana after records of 150 and 100 litres, where the statistics are
  those of CPython: 250.0, 125.0, 2, 150.0, 100.0.
\<close>

theorem obter_estatisticas_correct_witness:
  "obter_estatisticas sample ana =
     Inr [''total'' \<mapsto> SInt 0, ''media'' \<mapsto> SInt 0, ''quantidade_registros'' \<mapsto> SInt 0,
          ''maior_consumo'' \<mapsto> SInt 0, ''menor_consumo'' \<mapsto> SInt 0] \<and>
   obter_estatisticas sample ana250 =
     Inr [''total'' \<mapsto> SFloat 250, ''media'' \<mapsto> SFloat 125, ''quantidade_registros'' \<mapsto> SInt 2,
          ''maior_consumo'' \<mapsto> SFloat 150, ''menor_consumo'' \<mapsto> SFloat 100] \<and>
   (\<exists>maior. obter_estatisticas sample ana250 =
        Inr [''total'' \<mapsto> SFloat 250, ''media'' \<mapsto> SFloat 125, ''quantidade_registros'' \<mapsto> SInt 2,
             ''maior_consumo'' \<mapsto> maior, ''menor_consumo'' \<mapsto> SFloat 100] \<and>
      \<not> sample_gt (SFloat 150) maior \<and> \<not> sample_gt (SFloat 100) maior)"
proof -
  have c0: "consumos ana = []"
    by (simp add: ana_def Usuario_def Usuario_init_def)
  have i0: "py_int sample 0 = SInt 0" by (simp add: sample_def)
  from obter_estatisticas_correct [of ana sample] c0
  have 1: "obter_estatisticas sample ana =
     Inr [''total'' \<mapsto> SInt 0, ''media'' \<mapsto> SInt 0, ''quantidade_registros'' \<mapsto> SInt 0,
          ''maior_consumo'' \<mapsto> SInt 0, ''menor_consumo'' \<mapsto> SInt 0]"
    unfolding i0 by blast
  have c2: "consumos ana250 = [\<lparr>valor = SFloat 150, data = 0\<rparr>, \<lparr>valor = SFloat 100, data = 1\<rparr>]"
    by (simp add: ana250_def ana150_def ana_def Usuario_def Usuario_init_def adicionar_consumo_def)
  note irr = sample_gt_irrefl and tr = sample_gt_trans
  have s: "py_sum sample (map valor (consumos ana250)) = Inr (SFloat 250)"
    by (simp add: c2 sample_def sample_add_def)
  have m: "py_truediv sample (SFloat 250) (py_int sample (int (length (consumos ana250)))) =
      Inr (SFloat 125)"
    by (simp add: c2 sample_def sample_truediv_def)
  have ne: "consumos ana250 \<noteq> []" by (simp add: c2)
  from obter_estatisticas_correct [of ana250 sample] ne s m irr tr
  obtain maior menor where
    d: "obter_estatisticas sample ana250 =
           Inr [''total'' \<mapsto> SFloat 250, ''media'' \<mapsto> SFloat 125,
                ''quantidade_registros'' \<mapsto> py_int sample (int (length (consumos ana250))),
                ''maior_consumo'' \<mapsto> maior, ''menor_consumo'' \<mapsto> menor]"
    and mx: "\<forall>v \<in> valor ` set (consumos ana250). \<not> py_gt sample v maior"
    by blast
  from d stats_ana250 have "[''total'' \<mapsto> SFloat 250, ''media'' \<mapsto> SFloat 125,
                ''quantidade_registros'' \<mapsto> py_int sample (int (length (consumos ana250))),
                ''maior_consumo'' \<mapsto> maior, ''menor_consumo'' \<mapsto> menor] ''maior_consumo'' =
      [''total'' \<mapsto> SFloat 250, ''media'' \<mapsto> SFloat 125, ''quantidade_registros'' \<mapsto> SInt 2,
          ''maior_consumo'' \<mapsto> SFloat 150, ''menor_consumo'' \<mapsto> SFloat 100] ''maior_consumo''"
    by simp
  then have mv: "maior = SFloat 150" by simp
  from mx have "\<not> sample_gt (SFloat 150) maior \<and> \<not> sample_gt (SFloat 100) maior"
    by (simp add: c2 sample_def)
  with stats_ana250 mv have 3: "\<exists>maior. obter_estatisticas sample ana250 =
        Inr [''total'' \<mapsto> SFloat 250, ''media'' \<mapsto> SFloat 125, ''quantidade_registros'' \<mapsto> SInt 2,
             ''maior_consumo'' \<mapsto> maior, ''menor_consumo'' \<mapsto> SFloat 100] \<and>
      \<not> sample_gt (SFloat 150) maior \<and> \<not> sample_gt (SFloat 100) maior"
    by blast
  from 1 stats_ana250 3 show ?thesis by blast
qed

text \<open>
  A user with the records NaN and 1 litre: the maximum and the minimum returned are NaN,
  and \<^verbatim>\<open>1.0 <= nan\<close> and \<^verbatim>\<open>nan <= 1.0\<close> are both false, so NaN is neither the greatest nor the
  least of the two amounts.
\<close>

theorem obter_estatisticas_correct_counterexample:
  "obter_estatisticas sample nan_one_user =
     Inr [''total'' \<mapsto> SNaN, ''media'' \<mapsto> SNaN, ''quantidade_registros'' \<mapsto> SInt 2,
          ''maior_consumo'' \<mapsto> SNaN, ''menor_consumo'' \<mapsto> SNaN] \<and>
   map valor (consumos nan_one_user) = [SNaN, SFloat 1] \<and>
   \<not> sample_le (SFloat 1) SNaN \<and> \<not> sample_le SNaN (SFloat 1)"
  by (simp add: obter_estatisticas_def sample_def sample_add_def sample_truediv_def sample_gt_def
      sample_lt_def sample_le_def nan_one_user_def nan_user_def Usuario_def Usuario_init_def
      adicionar_consumo_def)

subsection \<open>The report of the manager\<close>

lemma for_each_map: "map f xs = map Inr ys \<Longrightarrow> for_each f xs = Inr ys"
proof (induction xs arbitrary: ys)
  case Nil
  then show ?case by simp
next
  case (Cons x xs)
  from Cons.prems obtain z zs where "ys = z # zs" "f x = Inr z" "map f xs = map Inr zs"
    by (cases ys) auto
  with Cons.IH [of zs] show ?case by simp
qed

lemma foldl_ones: "foldl (+) (k :: int) (map (\<lambda>l. 1) xs) = k + int (length xs)"
  by (induction xs arbitrary: k) simp_all

text \<open>
  C4. For a manager with at least one user, when the totals of the users evaluate to \<open>ts\<close>,
  their sum to \<open>s\<close>, the quotient of \<open>s\<close> by the number of users to \<open>m\<close>, and the alerts of the
  users to the lists \<open>rs\<close>, \<^verbatim>\<open>gerar_relatorio_geral\<close> returns a report in which the number of
  users is their count, the total consumption is \<open>s\<close>, the sum of the users' totals, the mean
  per user is \<open>m\<close>, and the number of users with an alert is the number of users for whom
  \<^verbatim>\<open>verificar_alertas\<close> returns at least one message.
\<close>

theorem gerar_relatorio_geral_fields:
  assumes "usuarios g \<noteq> []"
    and "map (calcular_total A) (usuarios g) = map Inr ts"
    and "py_sum A ts = Inr s"
    and "py_truediv A s (py_int A (int (length (usuarios g)))) = Inr m"
    and "map (verificar_alertas A g) (usuarios g) = map Inr rs"
  shows "\<exists>d. gerar_relatorio_geral A g = Inr d \<and>
    d ''total_usuarios'' = Some (py_int A (int (length (usuarios g)))) \<and>
    d ''consumo_total_sistema'' = Some s \<and>
    d ''media_por_usuario'' = Some m \<and>
    d ''usuarios_com_alerta'' = Some (py_int A (int (length (filter (\<lambda>r. r \<noteq> []) rs))))"
  using assms(1,3,4)
  by (simp add: gerar_relatorio_geral_def for_each_map [OF assms(2)] for_each_map [OF assms(5)]
      foldl_ones)

lemma usuarios_dois: "usuarios dois_usuarios = [ana150, ana350]"
  by (simp add: dois_usuarios_def adicionar_usuario_def GerenciadorConsumo_def)

lemma alertas_dois: "alertas dois_usuarios = [AlertaSimples (py_int sample 200), AlertaCritico (py_int sample 200)]"
  by (simp add: dois_usuarios_def adicionar_usuario_def GerenciadorConsumo_def)

lemma alertas_dos_dois:
  "verificar_alertas sample dois_usuarios ana150 = Inr []"
  "verificar_alertas sample dois_usuarios ana350 =
     Inr [alto_prefix @ ''350.0L (Limite: 200L)'', critico_prefix @ ''350.0L (Limite: 200L)'']"
  using verificar_alertas_two [OF alertas_dois totals_ana(2) sample_product_int]
    verificar_alertas_two [OF alertas_dois totals_ana(4) sample_product_int]
  by (simp_all add: sample_def sample_gt_def)

text \<open>
  Ana at 150 litres and Ana at 350 litres: two users, total 500.0, mean 250.0, one user with
  an alert, as in CPython.
\<close>

theorem gerar_relatorio_geral_fields_witness:
  "\<exists>d. gerar_relatorio_geral sample dois_usuarios = Inr d \<and>
     d ''total_usuarios'' = Some (SInt 2) \<and> d ''consumo_total_sistema'' = Some (SFloat 500) \<and>
     d ''media_por_usuario'' = Some (SFloat 250) \<and> d ''usuarios_com_alerta'' = Some (SInt 1)"
proof -
  have ne: "usuarios dois_usuarios \<noteq> []" by (simp add: usuarios_dois)
  have ts: "map (calcular_total sample) (usuarios dois_usuarios) = map Inr [SFloat 150, SFloat 350]"
    by (simp add: usuarios_dois totals_ana)
  have s: "py_sum sample [SFloat 150, SFloat 350] = Inr (SFloat 500)"
    by (simp add: sample_def sample_add_def)
  have m: "py_truediv sample (SFloat 500) (py_int sample (int (length (usuarios dois_usuarios)))) =
      Inr (SFloat 250)"
    by (simp add: usuarios_dois sample_def sample_truediv_def)
  have rs: "map (verificar_alertas sample dois_usuarios) (usuarios dois_usuarios) =
      map Inr [[], [alto_prefix @ ''350.0L (Limite: 200L)'', critico_prefix @ ''350.0L (Limite: 200L)'']]"
    by (simp add: usuarios_dois alertas_dos_dois)
  from gerar_relatorio_geral_fields [OF ne ts s m rs]
  show ?thesis by (simp add: usuarios_dois sample_def)
qed

text \<open>
  C5, as the code has it. For a manager with no user, \<^verbatim>\<open>gerar_relatorio_geral\<close> returns,
  without dividing, a report of exactly three fields, the number of users, the total
  consumption and the mean per user, all 0; the field for the users with an alert is absent.
\<close>

theorem relatorio_sem_usuarios:
  assumes "usuarios g = []"
  shows "\<exists>d. gerar_relatorio_geral A g = Inr d \<and>
    dom d = {''total_usuarios'', ''consumo_total_sistema'', ''media_por_usuario''} \<and>
    d ''total_usuarios'' = Some (py_int A 0) \<and> d ''consumo_total_sistema'' = Some (py_int A 0) \<and>
    d ''media_por_usuario'' = Some (py_int A 0) \<and> d ''usuarios_com_alerta'' = None"
  using assms by (auto simp add: gerar_relatorio_geral_def)

theorem relatorio_sem_usuarios_witness:
  "\<exists>d. gerar_relatorio_geral sample (GerenciadorConsumo sample) = Inr d \<and>
     d ''total_usuarios'' = Some (SInt 0) \<and> d ''consumo_total_sistema'' = Some (SInt 0) \<and>
     d ''media_por_usuario'' = Some (SInt 0) \<and> d ''usuarios_com_alerta'' = None"
proof -
  have e: "usuarios (GerenciadorConsumo sample) = []" by (simp add: GerenciadorConsumo_def)
  have i: "py_int sample 0 = SInt 0" by (simp add: sample_def)
  from relatorio_sem_usuarios [OF e, of sample] show ?thesis unfolding i by blast
qed

text \<open>
  The report of the freshly constructed manager has no field for the users with an alert,
  so it is not a report of four fields.
\<close>

theorem relatorio_sem_usuarios_counterexample:
  "gerar_relatorio_geral sample (GerenciadorConsumo sample) =
     Inr [''total_usuarios'' \<mapsto> SInt 0, ''consumo_total_sistema'' \<mapsto> SInt 0,
          ''media_por_usuario'' \<mapsto> SInt 0] \<and>
   ''usuarios_com_alerta'' \<notin>
     dom [''total_usuarios'' \<mapsto> SInt 0, ''consumo_total_sistema'' \<mapsto> SInt 0,
          ''media_por_usuario'' \<mapsto> SInt 0]"
  by (simp add: gerar_relatorio_geral_def GerenciadorConsumo_def sample_def)

subsection \<open>Looking a user up\<close>

lemma buscar_loop_None:
  "buscar_loop lower us n = None \<longleftrightarrow> (\<forall>u \<in> set us. lower (nome u) \<noteq> lower n)"
  by (induction us) simp_all

lemma buscar_loop_Some:
  assumes "buscar_loop lower us n = Some u"
  shows "\<exists>i < length us. us ! i = u \<and> lower (nome u) = lower n \<and>
           (\<forall>j < i. lower (nome (us ! j)) \<noteq> lower n)"
  using assms
proof (induction us)
  case Nil
  then show ?case by simp
next
  case (Cons v vs)
  show ?case
  proof (cases "lower (nome v) = lower n")
    case True
    with Cons.prems have "v = u" by simp
    with True have "(v # vs) ! 0 = u \<and> lower (nome u) = lower n \<and>
        (\<forall>j < 0. lower (nome ((v # vs) ! j)) \<noteq> lower n)" by simp
    then show ?thesis by blast
  next
    case False
    with Cons.prems have "buscar_loop lower vs n = Some u" by simp
    from Cons.IH [OF this] obtain i where i: "i < length vs" "vs ! i = u"
      "lower (nome u) = lower n" "\<forall>j < i. lower (nome (vs ! j)) \<noteq> lower n" by blast
    have "\<forall>j < Suc i. lower (nome ((v # vs) ! j)) \<noteq> lower n"
    proof (intro allI impI)
      fix j assume "j < Suc i"
      then show "lower (nome ((v # vs) ! j)) \<noteq> lower n"
        using False i(4) by (cases j) simp_all
    qed
    with i have "Suc i < length (v # vs) \<and> (v # vs) ! Suc i = u \<and> lower (nome u) = lower n \<and>
        (\<forall>j < Suc i. lower (nome ((v # vs) ! j)) \<noteq> lower n)" by simp
    then show ?thesis by blast
  qed
qed

lemma buscar_loop_append:
  "buscar_loop lower us n = Some u \<Longrightarrow> buscar_loop lower (us @ vs) n = Some u"
  by (induction us) (simp_all split: if_splits)

text \<open>
  C6. \<^verbatim>\<open>buscar_usuario\<close> returns None exactly when no stored name equals the query after
  lowering both; otherwise it returns the user at the least position whose lowered name is
  the lowered query. \<^verbatim>\<open>adicionar_usuario\<close> appends whatever the name, and a user added later
  never replaces an earlier match.
\<close>

theorem buscar_usuario_first_match:
  "(buscar_usuario lower g n = None \<longleftrightarrow>
      (\<forall>u \<in> set (usuarios g). lower (nome u) \<noteq> lower n)) \<and>
   (\<forall>u. buscar_usuario lower g n = Some u \<longrightarrow>
      (\<exists>i < length (usuarios g). usuarios g ! i = u \<and> lower (nome u) = lower n \<and>
         (\<forall>j < i. lower (nome (usuarios g ! j)) \<noteq> lower n))) \<and>
   usuarios (adicionar_usuario g v) = usuarios g @ [v] \<and>
   (\<forall>u. buscar_usuario lower g n = Some u \<longrightarrow>
      buscar_usuario lower (adicionar_usuario g v) n = Some u)"
proof (intro conjI allI impI)
  show "buscar_usuario lower g n = None \<longleftrightarrow>
      (\<forall>u \<in> set (usuarios g). lower (nome u) \<noteq> lower n)"
    by (simp add: buscar_usuario_def buscar_loop_None)
  show "usuarios (adicionar_usuario g v) = usuarios g @ [v]"
    by (simp add: adicionar_usuario_def)
next
  fix u assume "buscar_usuario lower g n = Some u"
  then show "\<exists>i < length (usuarios g). usuarios g ! i = u \<and> lower (nome u) = lower n \<and>
         (\<forall>j < i. lower (nome (usuarios g ! j)) \<noteq> lower n)"
    unfolding buscar_usuario_def by (rule buscar_loop_Some)
next
  fix u assume "buscar_usuario lower g n = Some u"
  then show "buscar_usuario lower (adicionar_usuario g v) n = Some u"
    by (simp add: buscar_usuario_def adicionar_usuario_def buscar_loop_append)
qed

lemma usuarios_tres: "usuarios tres_usuarios = [acme, ana350, UsuarioComercial ''ANA'' ''98.765'']"
  by (simp add: tres_usuarios_def adicionar_usuario_def GerenciadorConsumo_def)

lemma nomes_tres: "nome acme = ''Acme''" "nome ana350 = ''Ana''"
  "nome (UsuarioComercial ''ANA'' ''98.765'') = ''ANA''"
  by (simp_all add: acme_def ana350_def ana250_def ana150_def ana_def Usuario_def
      UsuarioComercial_def Usuario_init_def adicionar_consumo_def)

text \<open>
  Among Acme, Ana and ANA the query aNa finds Ana, at position 1, also after a second Ana is
  added; the query Bia finds nobody.
\<close>

theorem buscar_usuario_first_match_witness:
  "buscar_usuario ascii_lower tres_usuarios ''aNa'' = Some ana350 \<and>
   usuarios tres_usuarios ! 1 = ana350 \<and>
   buscar_usuario ascii_lower (adicionar_usuario tres_usuarios (Usuario ''ana'')) ''aNa'' = Some ana350 \<and>
   buscar_usuario ascii_lower tres_usuarios ''Bia'' = None"
  using buscar_usuario_first_match [of ascii_lower tres_usuarios "''aNa''" "Usuario ''ana''"]
    buscar_usuario_first_match [of ascii_lower tres_usuarios "''Bia''" "Usuario ''ana''"]
  by (simp add: buscar_usuario_def usuarios_tres nomes_tres ascii_lower_def)

subsection \<open>The description of a user\<close>

text \<open>
  C8, as the code has it. A user of class Usuario is described by the literal
  \<^verbatim>\<open>Usuario: \<close> (with an acute accent on the a), the name, \<^verbatim>\<open> | Tipo: \<close> and the category; a
  commercial user by \<^verbatim>\<open>Empresa: \<close>, the name, \<^verbatim>\<open> | CNPJ: \<close>, the business identifier,
  \<^verbatim>\<open> | Tipo: \<close> and the category, which is Comercial. The description of a commercial user
  contains its name, its identifier and the word Comercial.
\<close>

theorem exibir_info_format:
  "(cnpj u = None \<longrightarrow>
      exibir_info u = ''Usu'' @ [CHR 0xC3, CHR 0xA1] @ ''rio: '' @ nome u @ '' | Tipo: '' @ tipo u) \<and>
   (\<forall>c. cnpj u = Some c \<longrightarrow>
      exibir_info u = ''Empresa: '' @ nome u @ '' | CNPJ: '' @ c @ '' | Tipo: '' @ tipo u) \<and>
   exibir_info (Usuario n) =
      ''Usu'' @ [CHR 0xC3, CHR 0xA1] @ ''rio: '' @ n @ '' | Tipo: Residencial'' \<and>
   exibir_info (UsuarioComercial n k) = ''Empresa: '' @ n @ '' | CNPJ: '' @ k @ '' | Tipo: Comercial'' \<and>
   sublist n (exibir_info (UsuarioComercial n k)) \<and>
   sublist k (exibir_info (UsuarioComercial n k)) \<and>
   sublist ''Comercial'' (exibir_info (UsuarioComercial n k))"
proof -
  have e: "exibir_info (UsuarioComercial n k) =
      ''Empresa: '' @ n @ '' | CNPJ: '' @ k @ '' | Tipo: Comercial''"
    by (simp add: exibir_info_def UsuarioComercial_def Usuario_init_def)
  have "sublist ''Comercial'' ((''Empresa: '' @ n @ '' | CNPJ: '' @ k @ '' | Tipo: '') @ ''Comercial'' @ [])"
    by (rule sublist_mid)
  then have s3: "sublist ''Comercial'' (exibir_info (UsuarioComercial n k))"
    by (simp add: e)
  have s1: "sublist n (exibir_info (UsuarioComercial n k))"
    unfolding e by (rule sublist_mid)
  have "sublist k ((''Empresa: '' @ n @ '' | CNPJ: '') @ k @ '' | Tipo: Comercial'')"
    by (rule sublist_mid)
  then have s2: "sublist k (exibir_info (UsuarioComercial n k))"
    by (simp add: e)
  have u: "exibir_info (Usuario n) =
      ''Usu'' @ [CHR 0xC3, CHR 0xA1] @ ''rio: '' @ n @ '' | Tipo: Residencial''"
    by (simp add: exibir_info_def Usuario_def Usuario_init_def)
  show ?thesis using e u s1 s2 s3 by (simp add: exibir_info_def)
qed

text \<open>Ana and Acme, the scenario of the specification.\<close>

theorem exibir_info_format_witness:
  "exibir_info ana = ''Usu'' @ [CHR 0xC3, CHR 0xA1] @ ''rio: Ana | Tipo: Residencial'' \<and>
   exibir_info acme = ''Empresa: Acme | CNPJ: 12.345 | Tipo: Comercial'' \<and>
   sublist ''12.345'' (exibir_info acme)"
proof -
  note f = exibir_info_format [of ana "''Acme''" "''12.345''"]
  have "cnpj ana = None"
    by (simp add: ana_def Usuario_def Usuario_init_def)
  with f have a: "exibir_info ana =
      ''Usu'' @ [CHR 0xC3, CHR 0xA1] @ ''rio: '' @ nome ana @ '' | Tipo: '' @ tipo ana"
    by blast
  from f have b: "exibir_info (UsuarioComercial ''Acme'' ''12.345'' :: sample_num usuario) =
      ''Empresa: '' @ ''Acme'' @ '' | CNPJ: '' @ ''12.345'' @ '' | Tipo: Comercial''"
    by blast
  from f have c: "sublist ''12.345'' (exibir_info (UsuarioComercial ''Acme'' ''12.345'' :: sample_num usuario))"
    by blast
  have n: "nome ana = ''Ana''" "tipo ana = ''Residencial''"
    by (simp_all add: ana_def Usuario_def Usuario_init_def)
  show ?thesis
    using b c unfolding a n acme_def by simp
qed

text \<open>
  The descriptions are not the strings of the two formats without the leading word and with
  the labels Type and BusinessId.
\<close>

theorem exibir_info_format_counterexample:
  "exibir_info ana \<noteq> ''Ana | Type: Residencial'' \<and>
   exibir_info acme \<noteq> ''Acme | BusinessId: 12.345 | Type: Comercial''"
  by (simp add: exibir_info_def ana_def acme_def Usuario_def UsuarioComercial_def Usuario_init_def)

subsection \<open>The records of a user\<close>

lemma consumos_executar_op: "prefix (consumos u) (consumos (executar_op u op))"
  by (cases op) (simp_all add: adicionar_consumo_def)

lemma consumos_executar_ops: "prefix (consumos u) (consumos (foldl executar_op u ops))"
proof (induction ops arbitrary: u)
  case Nil
  then show ?case by simp
next
  case (Cons op ops)
  have "prefix (consumos u) (consumos (executar_op u op))"
    by (rule consumos_executar_op)
  also have "prefix (consumos (executar_op u op)) (consumos (foldl executar_op (executar_op u op) ops))"
    by (rule Cons.IH)
  finally show ?case by simp
qed

text \<open>
  C9. \<^verbatim>\<open>adicionar_consumo\<close> puts the record at the end of the list of records: the list grows
  by one, every record already stored keeps its position, and the other attributes are
  unchanged. After any sequence of method calls on a user the records it had are a prefix
  of the records it has: none is removed or moved. The operation is total: it has no error
  result.
\<close>

theorem adicionar_consumo_appends:
  "consumos (adicionar_consumo u c) = consumos u @ [c] \<and>
   length (consumos (adicionar_consumo u c)) = Suc (length (consumos u)) \<and>
   (\<forall>i < length (consumos u). consumos (adicionar_consumo u c) ! i = consumos u ! i) \<and>
   consumos (adicionar_consumo u c) ! length (consumos u) = c \<and>
   nome (adicionar_consumo u c) = nome u \<and> tipo (adicionar_consumo u c) = tipo u \<and>
   cnpj (adicionar_consumo u c) = cnpj u \<and>
   prefix (consumos u) (consumos (foldl executar_op u ops)) \<and>
   (\<forall>i < length (consumos u). consumos (foldl executar_op u ops) ! i = consumos u ! i)"
proof -
  have p: "prefix (consumos u) (consumos (foldl executar_op u ops))"
    by (rule consumos_executar_ops)
  have "\<forall>i < length (consumos u). consumos (foldl executar_op u ops) ! i = consumos u ! i"
    using p by (auto simp add: prefix_def nth_append)
  with p show ?thesis by (simp add: adicionar_consumo_def nth_append)
qed

text \<open>
  Ana after 150 and 100 litres receives a third record, between reads: the first two records
  stay where they were.
\<close>

theorem adicionar_consumo_appends_witness:
  "consumos ana250 = [\<lparr>valor = SFloat 150, data = 0\<rparr>, \<lparr>valor = SFloat 100, data = 1\<rparr>] \<and>
   consumos (foldl executar_op ana250
      [CalcularTotal, AdicionarConsumo \<lparr>valor = SFloat 100, data = 2\<rparr>, ObterEstatisticas, ExibirInfo]) =
     [\<lparr>valor = SFloat 150, data = 0\<rparr>, \<lparr>valor = SFloat 100, data = 1\<rparr>,
      \<lparr>valor = SFloat 100, data = 2\<rparr>] \<and>
   consumos (adicionar_consumo ana250 \<lparr>valor = SFloat 100, data = 2\<rparr>) ! 0 =
     \<lparr>valor = SFloat 150, data = 0\<rparr>"
  using adicionar_consumo_appends [of ana250 "\<lparr>valor = SFloat 100, data = 2\<rparr>"
      "[CalcularTotal, AdicionarConsumo \<lparr>valor = SFloat 100, data = 2\<rparr>, ObterEstatisticas, ExibirInfo]"]
  by (simp add: ana250_def ana150_def ana_def Usuario_def Usuario_init_def adicionar_consumo_def)

end
